theory Spec2Isabelle
  imports Complex_Main
begin

section \<open>Observable behaviour\<close>

text \<open>
  The game (\<^verbatim>\<open>game_engine.py\<close>, \<^verbatim>\<open>utils.py\<close>) is a sequence of console effects
  around calls into chapter modules. A run is described by the list of effects it
  performs, in order, and by how it ends: with a returned value or with a raised
  exception.
\<close>

datatype py_exception =
    ImportError string
  | ModuleNotFoundError string
  | AttributeError string
  | ValueError string
  | OverflowError string
  | OtherException string string

text \<open>\<^verbatim>\<open>except ImportError\<close> catches the class and its subclass ModuleNotFoundError.\<close>

fun isinstance_ImportError :: "py_exception \<Rightarrow> bool" where
  "isinstance_ImportError (ImportError _) = True"
| "isinstance_ImportError (ModuleNotFoundError _) = True"
| "isinstance_ImportError _ = False"

text \<open>\<^verbatim>\<open>str(e)\<close>, as the f-string of \<^verbatim>\<open>load_chapter\<close> formats the exception.\<close>

fun str_exception :: "py_exception \<Rightarrow> string" where
  "str_exception (ImportError msg) = msg"
| "str_exception (ModuleNotFoundError msg) = msg"
| "str_exception (AttributeError msg) = msg"
| "str_exception (ValueError msg) = msg"
| "str_exception (OverflowError msg) = msg"
| "str_exception (OtherException cls msg) = msg"

datatype event =
    Write string       \<comment> \<open>characters written to standard output\<close>
  | Input string       \<comment> \<open>\<^verbatim>\<open>input(prompt)\<close>: the prompt is written and one line is read\<close>
  | System string      \<comment> \<open>\<^verbatim>\<open>os.system(command)\<close>\<close>
  | Sleep real         \<comment> \<open>\<^verbatim>\<open>time.sleep(seconds)\<close>\<close>
  | Import string      \<comment> \<open>\<^verbatim>\<open>importlib.import_module(name)\<close>\<close>
  | Call string        \<comment> \<open>the call of the attribute of this name on a chapter module\<close>

text \<open>
  What calling an attribute of a chapter module does, as far as the engine can see: the
  chapter's own narrative is part of the \<open>Call\<close> event, and the call either returns or
  raises (an attribute that is not callable raises TypeError at the call).
\<close>

datatype callable = Returns | Raises py_exception

text \<open>
  The object \<^verbatim>\<open>importlib.import_module\<close> hands back: its truth value (what
  \<^verbatim>\<open>not chapter_module\<close> tests; an ordinary module object is true, an object whose
  \<^verbatim>\<open>__bool__\<close> or \<^verbatim>\<open>__len__\<close> says so is false) and its attributes.
\<close>

record module =
  truthy :: bool
  attrs :: "string \<rightharpoonup> callable"

text \<open>
  The places where a run of \<^verbatim>\<open>start_game\<close> calls \<^verbatim>\<open>input\<close>: in the
  \<^verbatim>\<open>press_enter_to_continue\<close> after the welcome banner, in the one after a chapter,
  and in \<^verbatim>\<open>end_game\<close>. What a chapter reads for itself is part of its \<open>Call\<close>.
\<close>

datatype prompt = WelcomePause | ChapterPause int | Farewell

text \<open>
  The surroundings of the process: the platform name \<^verbatim>\<open>os.name\<close>, what
  \<^verbatim>\<open>importlib.import_module\<close> does for a module name, and what \<^verbatim>\<open>input\<close> does at
  each of its places: \<open>None\<close> when the user presses Enter and the call returns (it
  waits for that without a time limit), \<open>Some e\<close> when the call raises \<open>e\<close>, as it
  does with EOFError at the end of standard input and with KeyboardInterrupt.
\<close>

record world =
  os_name :: string
  import_module :: "string \<Rightarrow> py_exception + module"
  input_raises :: "prompt \<Rightarrow> py_exception option"

definition NL :: char where
  "NL = CHR 0x0A"

text \<open>\<^verbatim>\<open>print(s)\<close> writes \<open>s\<close> and the line terminator.\<close>

definition print :: "string \<Rightarrow> event" where
  "print s = Write (s @ [NL])"

text \<open>\<^verbatim>\<open>str\<close> of a Python int, as the f-strings format the chapter number.\<close>

definition digit_char :: "nat \<Rightarrow> char" where
  "digit_char d = char_of (48 + d)"

fun digits :: "nat \<Rightarrow> string" where
  "digits n = (if n < 10 then [digit_char n] else digits (n div 10) @ [digit_char (n mod 10)])"

declare digits.simps [simp del]

definition str :: "int \<Rightarrow> string" where
  "str i = (if i < 0 then CHR ''-'' # digits (nat (- i)) else digits (nat i))"

section \<open>Console utilities (utils.py)\<close>

definition clear_screen :: "world \<Rightarrow> event list" where
  "clear_screen w = (if os_name w = ''nt'' then [System ''cls''] else [System ''clear''])"






definition pause_prompt :: string where
  "pause_prompt = NL # ''(Your journey pauses but briefly. Press Enter to delve deeper into the odyssey.)'' @ [NL]"

text \<open>\<^verbatim>\<open>input(text)\<close>, called at the given place.\<close>

definition py_input :: "world \<Rightarrow> prompt \<Rightarrow> string \<Rightarrow> event list \<times> (py_exception + unit)" where
  "py_input w place text =
     ([Input text], case input_raises w place of None \<Rightarrow> Inr () | Some e \<Rightarrow> Inl e)"

definition press_enter_to_continue ::
  "world \<Rightarrow> prompt \<Rightarrow> event list \<times> (py_exception + unit)" where
  "press_enter_to_continue w place =
     (case py_input w place pause_prompt of
        (t, Inl e) \<Rightarrow> (t, Inl e)
      | (t, Inr _) \<Rightarrow> (t @ clear_screen w, Inr ()))"

definition farewell_prompt :: string where
  "farewell_prompt = NL # ''Press Enter to bid farewell to this digital odyssey.''"

definition end_game :: "world \<Rightarrow> event list \<times> (py_exception + unit)" where
  "end_game w =
     (case py_input w Farewell farewell_prompt of
        (t, r) \<Rightarrow>
          ([print (NL # ''Your journey ends here, but the adventure continues in your heart.''),
            print ''And also in any sequels we may develop.''] @ t,
           r))"

definition welcome_message :: "event list" where
  "welcome_message =
     [print (NL # ''Welcome to '' @ [CHR 0x27] @ ''Ctrl+S - The World Edition!'' @ [CHR 0x27]
               @ '' - By Thomas J Butler''),
      print ''The indie game where keyboards are mightier than swords.'',
      print ''Please check out my GitHub and LinkedIn profiles for more projects and to connect with me.'',
      print (replicate 60 CHR ''-''),
      print ''Remember, in this world, your wit is your greatest weapon.'',
      print (replicate 60 CHR ''-''),
      Sleep 2]"

section \<open>The chapter runner (game_engine.py)\<close>

record game_state =
  player_name :: string
  inventory :: "string list"
  progress :: "int \<rightharpoonup> string"

record engine =
  current_chapter :: int
  max_chapters :: int
  game_state :: game_state

definition GameEngine_init :: engine where
  "GameEngine_init =
     \<lparr>current_chapter = 1, max_chapters = 5,
      game_state = \<lparr>player_name = '''', inventory = [], progress = Map.empty\<rparr>\<rparr>"

definition load_chapter ::
  "world \<Rightarrow> engine \<Rightarrow> int \<Rightarrow> event list \<times> (py_exception + module option)" where
  "load_chapter w self chapter_num =
     (let module_name = ''chapters.ch'' @ str chapter_num in
      case import_module w module_name of
        Inr chapter_module \<Rightarrow> ([Import module_name], Inr (Some chapter_module))
      | Inl e \<Rightarrow>
          if isinstance_ImportError e
          then ([Import module_name,
                 print (''Error loading chapter '' @ str chapter_num @ '': '' @ str_exception e)],
                Inr None)
          else ([Import module_name], Inl e))"

definition hasattr :: "module \<Rightarrow> string \<Rightarrow> bool" where
  "hasattr m name = (attrs m name \<noteq> None)"

text \<open>\<^verbatim>\<open>getattr(m, name)()\<close>: the attribute is looked up and called with no argument.\<close>

definition call_attr :: "module \<Rightarrow> string \<Rightarrow> event list \<times> (py_exception + unit)" where
  "call_attr m name =
     (case attrs m name of
        None \<Rightarrow> ([], Inl (AttributeError name))
      | Some Returns \<Rightarrow> ([Call name], Inr ())
      | Some (Raises e) \<Rightarrow> ([Call name], Inl e))"

definition loading_banner :: "int \<Rightarrow> event list" where
  "loading_banner chapter_num =
     [print (NL # replicate 60 CHR ''=''),
      print (''LOADING CHAPTER '' @ str chapter_num),
      print (replicate 60 CHR ''='')]"

text \<open>
  \<^verbatim>\<open>if not chapter_module\<close> tests the truth value of what \<^verbatim>\<open>load_chapter\<close>
  returned: \<^verbatim>\<open>None\<close> is false, and so is a loaded object that is not \<open>truthy\<close>.
\<close>

definition run_chapter ::
  "world \<Rightarrow> engine \<Rightarrow> int \<Rightarrow> event list \<times> (py_exception + bool)" where
  "run_chapter w self chapter_num =
     (case load_chapter w self chapter_num of
        (t, Inl e) \<Rightarrow> (loading_banner chapter_num @ t, Inl e)
      | (t, Inr None) \<Rightarrow>
          (loading_banner chapter_num @ t @
             [print (''Chapter '' @ str chapter_num @ '' could not be loaded. Skipping...'')],
           Inr False)
      | (t, Inr (Some chapter_module)) \<Rightarrow>
          if \<not> truthy chapter_module
          then (loading_banner chapter_num @ t @
                  [print (''Chapter '' @ str chapter_num @ '' could not be loaded. Skipping...'')],
                Inr False)
          else
          (let entry =
             (if hasattr chapter_module ''main'' then Some ''main''
              else if hasattr chapter_module (''chapter_'' @ str chapter_num)
                then Some (''chapter_'' @ str chapter_num)
              else if hasattr chapter_module (''ch'' @ str chapter_num @ ''_main'')
                then Some (''ch'' @ str chapter_num @ ''_main'')
              else None)
           in case entry of
                None \<Rightarrow>
                  (loading_banner chapter_num @ t @
                     [print (''No main function found in chapter '' @ str chapter_num)],
                   Inr False)
              | Some name \<Rightarrow>
                  (case call_attr chapter_module name of
                     (t', Inl e) \<Rightarrow> (loading_banner chapter_num @ t @ t', Inl e)
                   | (t', Inr _) \<Rightarrow> (loading_banner chapter_num @ t @ t', Inr True))))"

definition save_progress :: "engine \<Rightarrow> engine \<times> event list \<times> (py_exception + unit)" where
  "save_progress self = (self, [], Inr ())"

definition load_progress :: "engine \<Rightarrow> engine \<times> event list \<times> (py_exception + unit)" where
  "load_progress self = (self, [], Inr ())"

text \<open>
  The body of the \<^verbatim>\<open>for\<close> loop of \<^verbatim>\<open>start_game\<close>, over the chapter numbers still
  to come. \<^verbatim>\<open>break\<close> ends the recursion; an exception ends it too and is handed on.
\<close>

fun chapter_loop ::
  "world \<Rightarrow> int list \<Rightarrow> engine \<Rightarrow> engine \<times> event list \<times> (py_exception + unit)" where
  "chapter_loop w [] self = (self, [], Inr ())"
| "chapter_loop w (chapter # rest) self =
     (let t0 = [print (NL # ''--- Beginning Chapter '' @ str chapter @ '' ---'')] in
      case run_chapter w self chapter of
        (t1, Inl e) \<Rightarrow> (self, t0 @ t1, Inl e)
      | (t1, Inr success) \<Rightarrow>
          if \<not> success
          then (self, t0 @ t1 @ [print ''Game encountered an error. Ending...''], Inr ())
          else
            (case save_progress (self\<lparr>current_chapter := chapter + 1\<rparr>) of
               (self1, t2, Inl e) \<Rightarrow> (self1, t0 @ t1 @ t2, Inl e)
             | (self1, t2, Inr _) \<Rightarrow>
                 if chapter < max_chapters self1
                 then
                   (case press_enter_to_continue w (ChapterPause chapter) of
                      (t3, Inl e) \<Rightarrow> (self1, t0 @ t1 @ t2 @ t3, Inl e)
                    | (t3, Inr _) \<Rightarrow>
                        (case chapter_loop w rest self1 of
                           (self2, t4, r) \<Rightarrow> (self2, t0 @ t1 @ t2 @ t3 @ t4, r)))
                 else
                   (case chapter_loop w rest self1 of
                      (self2, t4, r) \<Rightarrow> (self2, t0 @ t1 @ t2 @ t4, r))))"

definition completed_banner :: "event list" where
  "completed_banner =
     [print (NL # replicate 60 CHR ''=''),
      print ''ADVENTURE COMPLETED!'',
      print (replicate 60 CHR ''='')]"

definition start_game :: "world \<Rightarrow> engine \<Rightarrow> engine \<times> event list \<times> (py_exception + unit)" where
  "start_game w self =
     (let t0 = clear_screen w @ welcome_message in
      case press_enter_to_continue w WelcomePause of
        (t1, Inl e) \<Rightarrow> (self, t0 @ t1, Inl e)
      | (t1, Inr _) \<Rightarrow>
          (case chapter_loop w [1..max_chapters self] self of
             (self1, t2, Inl e) \<Rightarrow> (self1, t0 @ t1 @ t2, Inl e)
           | (self1, t2, Inr _) \<Rightarrow>
               (case end_game w of
                  (t3, r) \<Rightarrow> (self1, t0 @ t1 @ t2 @ completed_banner @ t3, r))))"

section \<open>Reading a run\<close>

text \<open>The attribute names called on chapter modules, in the order of the calls.\<close>

fun call_names :: "event list \<Rightarrow> string list" where
  "call_names [] = []"
| "call_names (Call name # t) = name # call_names t"
| "call_names (_ # t) = call_names t"


text \<open>
  The part of a run that shows the dispatch: the imports, the calls of entry points and
  the prompts that wait for the user.
\<close>

fun is_dispatch_event :: "event \<Rightarrow> bool" where
  "is_dispatch_event (Import _) = True"
| "is_dispatch_event (Call _) = True"
| "is_dispatch_event (Input _) = True"
| "is_dispatch_event _ = False"

section \<open>The points of the chapter loop\<close>

text \<open>
  The loop of \<^verbatim>\<open>start_game\<close> once more, this time listing the places it passes
  through, each with the engine as it is there and with the number of calls of
  \<^verbatim>\<open>run_chapter\<close> that have returned True so far: the head of an iteration, the
  place right after \<^verbatim>\<open>run_chapter\<close> has returned (with the value it returned), the
  place right after
  \<^verbatim>\<open>current_chapter\<close> has been assigned, and the place after the loop. Between two
  of these places neither the engine nor the number changes. A run that an exception
  ends (raised by \<^verbatim>\<open>run_chapter\<close> or by the pause after a chapter) has no place after
  the one where it was raised.
\<close>

datatype point = LoopHead | AfterRunChapter bool | AfterAdvance | AfterLoop

fun loop_points :: "world \<Rightarrow> int list \<Rightarrow> engine \<Rightarrow> nat \<Rightarrow> (point \<times> engine \<times> nat) list" where
  "loop_points w [] self n = [(AfterLoop, self, n)]"
| "loop_points w (chapter # rest) self n =
     (LoopHead, self, n) #
     (case snd (run_chapter w self chapter) of
        Inl e \<Rightarrow> []
      | Inr success \<Rightarrow>
          if \<not> success then [(AfterRunChapter False, self, n), (AfterLoop, self, n)]
          else
            (AfterRunChapter True, self, Suc n) #
            (AfterAdvance, self\<lparr>current_chapter := chapter + 1\<rparr>, Suc n) #
            (let self1 = fst (save_progress (self\<lparr>current_chapter := chapter + 1\<rparr>)) in
             if chapter < max_chapters self1
                \<and> snd (press_enter_to_continue w (ChapterPause chapter)) \<noteq> Inr ()
             then []
             else loop_points w rest self1 (Suc n)))"

section \<open>The life of an engine\<close>

text \<open>
  The methods of \<^verbatim>\<open>GameEngine\<close> that can be called on an engine once it is
  constructed, and the engine each leaves behind. \<^verbatim>\<open>load_chapter\<close> and
  \<^verbatim>\<open>run_chapter\<close> assign no attribute of \<^verbatim>\<open>self\<close>, and a chapter is handed no
  reference to the engine.
\<close>

datatype operation = LoadChapter int | RunChapter int | SaveProgress | LoadProgress | StartGame

fun perform :: "world \<Rightarrow> operation \<Rightarrow> engine \<Rightarrow> engine" where
  "perform w (LoadChapter n) self = self"
| "perform w (RunChapter n) self = self"
| "perform w SaveProgress self = fst (save_progress self)"
| "perform w LoadProgress self = fst (load_progress self)"
| "perform w StartGame self = fst (start_game w self)"

fun lifetime :: "(world \<times> operation) list \<Rightarrow> engine \<Rightarrow> engine" where
  "lifetime [] self = self"
| "lifetime ((w, operation) # rest) self = lifetime rest (perform w operation self)"

section \<open>Sample surroundings\<close>

text \<open>The exception Python raises for a module that does not exist.\<close>

definition no_module :: "string \<Rightarrow> py_exception" where
  "no_module name = ModuleNotFoundError (''No module named '' @ [CHR 0x27] @ name @ [CHR 0x27])"

text \<open>
  Five chapters that use the three entry point names in different combinations; no other
  module exists.
\<close>

definition demo_modules :: "string \<Rightarrow> py_exception + module" where
  "demo_modules name =
     (if name = ''chapters.ch1''
        then Inr \<lparr>truthy = True, attrs = [''main'' \<mapsto> Returns, ''chapter_1'' \<mapsto> Returns]\<rparr>
      else if name = ''chapters.ch2''
        then Inr \<lparr>truthy = True, attrs = [''chapter_2'' \<mapsto> Returns, ''ch2_main'' \<mapsto> Returns]\<rparr>
      else if name = ''chapters.ch3''
        then Inr \<lparr>truthy = True, attrs = [''ch3_main'' \<mapsto> Returns]\<rparr>
      else if name = ''chapters.ch4''
        then Inr \<lparr>truthy = True, attrs = [''main'' \<mapsto> Returns]\<rparr>
      else if name = ''chapters.ch5''
        then Inr \<lparr>truthy = True, attrs = [''intro'' \<mapsto> Returns, ''main'' \<mapsto> Returns]\<rparr>
      else Inl (no_module name))"

definition demo_world :: world where
  "demo_world = \<lparr>os_name = ''posix'', import_module = demo_modules,
       input_raises = (\<lambda>place. None)\<rparr>"

text \<open>
  Chapter 1 has a \<^verbatim>\<open>main\<close> that raises RuntimeError; the source of chapter 2 has a
  syntax error, so importing it raises SyntaxError.
\<close>

definition raising_modules :: "string \<Rightarrow> py_exception + module" where
  "raising_modules name =
     (if name = ''chapters.ch1''
        then Inr \<lparr>truthy = True,
                 attrs = [''main'' \<mapsto> Raises (OtherException ''RuntimeError'' ''boom'')]\<rparr>
      else if name = ''chapters.ch2''
        then Inl (OtherException ''SyntaxError'' ''invalid syntax'')
      else demo_modules name)"

definition raising_world :: world where
  "raising_world = \<lparr>os_name = ''posix'', import_module = raising_modules,
       input_raises = (\<lambda>place. None)\<rparr>"

text \<open>Chapter 1 resolves to an object that has a \<^verbatim>\<open>main\<close> and is false.\<close>

definition falsy_modules :: "string \<Rightarrow> py_exception + module" where
  "falsy_modules name =
     (if name = ''chapters.ch1''
        then Inr \<lparr>truthy = False, attrs = [''main'' \<mapsto> Returns]\<rparr>
      else demo_modules name)"

definition falsy_world :: world where
  "falsy_world = \<lparr>os_name = ''posix'', import_module = falsy_modules,
       input_raises = (\<lambda>place. None)\<rparr>"

text \<open>The module of chapter 3 does not exist.\<close>

definition ch3_missing_modules :: "string \<Rightarrow> py_exception + module" where
  "ch3_missing_modules name =
     (if name = ''chapters.ch3'' then Inl (no_module name) else demo_modules name)"

definition ch3_missing_world :: world where
  "ch3_missing_world = \<lparr>os_name = ''posix'', import_module = ch3_missing_modules,
       input_raises = (\<lambda>place. None)\<rparr>"

text \<open>
  The five chapters again, started with standard input at its end: every
  \<^verbatim>\<open>input\<close> raises EOFError. And the same with the module of chapter 3 missing.
\<close>

definition end_of_input :: py_exception where
  "end_of_input = OtherException ''EOFError'' ''EOF when reading a line''"

definition eof_world :: world where
  "eof_world = \<lparr>os_name = ''posix'', import_module = demo_modules,
       input_raises = (\<lambda>place. Some end_of_input)\<rparr>"

definition ch3_missing_eof_world :: world where
  "ch3_missing_eof_world = \<lparr>os_name = ''posix'', import_module = ch3_missing_modules,
       input_raises = (\<lambda>place. Some end_of_input)\<rparr>"

text \<open>The five chapters with an end of input at the farewell prompt only.\<close>

definition eof_at_farewell_world :: world where
  "eof_at_farewell_world = \<lparr>os_name = ''posix'', import_module = demo_modules,
       input_raises = (\<lambda>place. if place = Farewell then Some end_of_input else None)\<rparr>"

text \<open>The module of chapter 3 exists and its source has a syntax error.\<close>

definition ch3_broken_modules :: "string \<Rightarrow> py_exception + module" where
  "ch3_broken_modules name =
     (if name = ''chapters.ch3'' then Inl (OtherException ''SyntaxError'' ''invalid syntax'')
      else demo_modules name)"

definition ch3_broken_world :: world where
  "ch3_broken_world = \<lparr>os_name = ''posix'', import_module = ch3_broken_modules,
       input_raises = (\<lambda>place. None)\<rparr>"

section \<open>Basic facts\<close>

lemma str_small:
  "str 1 = ''1''" "str 2 = ''2''" "str 3 = ''3''" "str 4 = ''4''" "str 5 = ''5''" "str 7 = ''7''"
  by code_simp+

lemma call_names_append: "call_names (s @ t) = call_names s @ call_names t"
  by (induction s rule: call_names.induct) simp_all

lemma call_names_loading_banner: "call_names (loading_banner n) = []"
  by (simp add: loading_banner_def print_def)

lemma call_names_call_attr:
  "attrs m name \<noteq> None \<Longrightarrow> call_names (fst (call_attr m name)) = [name]"
  by (auto simp: call_attr_def split: option.splits callable.splits)


section \<open>The entry point of a chapter\<close>

text \<open>
  C1, as the specification states it: whenever \<^verbatim>\<open>load_chapter(n)\<close> resolves a unit
  that has one of the three names, \<^verbatim>\<open>run_chapter(n)\<close> calls exactly one entry point.
  The code tests the truth value of the unit first (\<^verbatim>\<open>if not chapter_module\<close>): a
  resolved unit that is false is treated as not loaded, whatever it has. Here chapter 1
  resolves to a false object with a \<^verbatim>\<open>main\<close>; nothing is called and the result is
  False.
\<close>

theorem falsy_unit_counterexample:
  "snd (load_chapter falsy_world GameEngine_init 1)
     = Inr (Some \<lparr>truthy = False, attrs = [''main'' \<mapsto> Returns]\<rparr>)
   \<and> hasattr \<lparr>truthy = False, attrs = [''main'' \<mapsto> Returns]\<rparr> ''main''
   \<and> call_names (fst (run_chapter falsy_world GameEngine_init 1)) = []
   \<and> snd (run_chapter falsy_world GameEngine_init 1) = Inr False"
  by (simp add: run_chapter_def load_chapter_def str_small falsy_world_def falsy_modules_def
        hasattr_def loading_banner_def print_def)

text \<open>
  C1, amended. For every chapter number (1 to 5 included) for which
  \<^verbatim>\<open>load_chapter\<close> resolves a unit \<open>m\<close> whose truth value is true, as that of every
  ordinary module object is: \<^verbatim>\<open>run_chapter\<close> calls exactly one attribute if one of
  \<^verbatim>\<open>main\<close>, \<^verbatim>\<open>chapter_<n>\<close>, \<^verbatim>\<open>ch<n>_main\<close> exists, namely the first that exists in
  this order (so \<^verbatim>\<open>main\<close> alone when \<^verbatim>\<open>main\<close> and \<^verbatim>\<open>chapter_<n>\<close> both exist), and
  calls nothing and returns False if none exists. For a resolved unit whose truth value
  is false it calls nothing and returns False.
\<close>

theorem run_chapter_entry_point_priority:
  assumes "snd (load_chapter w self n) = Inr (Some m)"
  shows "(truthy m \<and> hasattr m ''main'' \<longrightarrow>
          call_names (fst (run_chapter w self n)) = [''main''])
    \<and> (truthy m \<and> \<not> hasattr m ''main'' \<and> hasattr m (''chapter_'' @ str n) \<longrightarrow>
          call_names (fst (run_chapter w self n)) = [''chapter_'' @ str n])
    \<and> (truthy m \<and> \<not> hasattr m ''main'' \<and> \<not> hasattr m (''chapter_'' @ str n)
          \<and> hasattr m (''ch'' @ str n @ ''_main'') \<longrightarrow>
          call_names (fst (run_chapter w self n)) = [''ch'' @ str n @ ''_main''])
    \<and> (truthy m \<and> \<not> hasattr m ''main'' \<and> \<not> hasattr m (''chapter_'' @ str n)
          \<and> \<not> hasattr m (''ch'' @ str n @ ''_main'') \<longrightarrow>
          call_names (fst (run_chapter w self n)) = [] \<and> snd (run_chapter w self n) = Inr False)
    \<and> (\<not> truthy m \<longrightarrow>
          call_names (fst (run_chapter w self n)) = [] \<and> snd (run_chapter w self n) = Inr False)"
proof -
  obtain t where l: "load_chapter w self n = (t, Inr (Some m))"
    using assms by (cases "load_chapter w self n") simp
  have t: "call_names t = []"
    using l by (auto simp: load_chapter_def Let_def print_def split: sum.splits if_splits)
  have c: "\<And>name. hasattr m name \<Longrightarrow> call_names (fst (call_attr m name)) = [name]"
    by (simp add: hasattr_def call_names_call_attr)
  show ?thesis
    using l t c
    by (auto simp: run_chapter_def call_names_append call_names_loading_banner print_def
          case_prod_beta split: sum.splits)
qed

theorem run_chapter_entry_point_priority_witness:
  "snd (load_chapter demo_world GameEngine_init 1)
     = Inr (Some \<lparr>truthy = True, attrs = [''main'' \<mapsto> Returns, ''chapter_1'' \<mapsto> Returns]\<rparr>)
   \<and> hasattr \<lparr>truthy = True, attrs = [''main'' \<mapsto> Returns, ''chapter_1'' \<mapsto> Returns]\<rparr> ''main''
   \<and> hasattr \<lparr>truthy = True, attrs = [''main'' \<mapsto> Returns, ''chapter_1'' \<mapsto> Returns]\<rparr> ''chapter_1''
   \<and> call_names (fst (run_chapter demo_world GameEngine_init 1)) = [''main'']"
proof -
  have l: "snd (load_chapter demo_world GameEngine_init 1)
             = Inr (Some \<lparr>truthy = True, attrs = [''main'' \<mapsto> Returns, ''chapter_1'' \<mapsto> Returns]\<rparr>)"
    by (simp add: load_chapter_def str_small demo_world_def demo_modules_def)
  from run_chapter_entry_point_priority [OF l] l show ?thesis
    by (simp add: hasattr_def)
qed

section \<open>Exceptions at the boundary of the runner\<close>

text \<open>
  C2, as the specification states it: whatever the chapter unit does, \<^verbatim>\<open>load_chapter\<close>
  and \<^verbatim>\<open>run_chapter\<close> end with a value and raise nothing. The code does not do that:
  an exception raised by the called entry point leaves \<^verbatim>\<open>run_chapter\<close>, and an
  exception of the import that is no ImportError leaves \<^verbatim>\<open>load_chapter\<close>.
\<close>

theorem exceptions_escape_counterexample:
  "snd (run_chapter raising_world GameEngine_init 1) = Inl (OtherException ''RuntimeError'' ''boom'')
   \<and> snd (load_chapter raising_world GameEngine_init 2)
       = Inl (OtherException ''SyntaxError'' ''invalid syntax'')"
  by (simp add: run_chapter_def load_chapter_def str_small raising_world_def raising_modules_def
        hasattr_def call_attr_def)

text \<open>
  C2, amended. An ImportError (ModuleNotFoundError included) raised while the chapter is
  resolved is turned into the absent value by \<^verbatim>\<open>load_chapter\<close> and into False by
  \<^verbatim>\<open>run_chapter\<close>. Any other exception of the import is raised again by both. When the
  chapter is resolved, \<^verbatim>\<open>load_chapter\<close> returns it, and \<^verbatim>\<open>run_chapter\<close> raises exactly
  when the one entry point it calls raises, with that exception.
\<close>

theorem runner_exception_boundary:
  "(import_module w (''chapters.ch'' @ str n) = Inl e \<and> isinstance_ImportError e \<longrightarrow>
      snd (load_chapter w self n) = Inr None \<and> snd (run_chapter w self n) = Inr False)
   \<and> (import_module w (''chapters.ch'' @ str n) = Inl e \<and> \<not> isinstance_ImportError e \<longrightarrow>
      snd (load_chapter w self n) = Inl e \<and> snd (run_chapter w self n) = Inl e)
   \<and> (import_module w (''chapters.ch'' @ str n) = Inr m \<longrightarrow>
      snd (load_chapter w self n) = Inr (Some m)
      \<and> (snd (run_chapter w self n) = Inl e' \<longleftrightarrow>
           (\<exists>name. call_names (fst (run_chapter w self n)) = [name]
                    \<and> attrs m name = Some (Raises e'))))"
  by (auto simp: run_chapter_def load_chapter_def hasattr_def call_attr_def print_def
        call_names_append call_names_loading_banner
        split: sum.splits option.splits callable.splits)

theorem runner_exception_boundary_witness:
  "snd (load_chapter demo_world GameEngine_init 7) = Inr None
   \<and> snd (run_chapter demo_world GameEngine_init 7) = Inr False
   \<and> snd (run_chapter raising_world GameEngine_init 2)
       = Inl (OtherException ''SyntaxError'' ''invalid syntax'')
   \<and> snd (load_chapter raising_world GameEngine_init 1)
       = Inr (Some \<lparr>truthy = True,
                     attrs = [''main'' \<mapsto> Raises (OtherException ''RuntimeError'' ''boom'')]\<rparr>)"
  using runner_exception_boundary
          [of demo_world 7 "no_module ''chapters.ch7''" GameEngine_init undefined undefined]
        runner_exception_boundary
          [of raising_world 2 "OtherException ''SyntaxError'' ''invalid syntax''" GameEngine_init
              undefined undefined]
        runner_exception_boundary
          [of raising_world 1 undefined GameEngine_init
              "\<lparr>truthy = True,
                attrs = [''main'' \<mapsto> Raises (OtherException ''RuntimeError'' ''boom'')]\<rparr>"
              undefined]
  by (simp add: str_small demo_world_def demo_modules_def no_module_def raising_world_def
        raising_modules_def)

section \<open>A chapter that cannot be resolved\<close>

text \<open>
  C5, as the specification states it: for a chapter that cannot be resolved, because its
  unit does not exist or fails to load, \<^verbatim>\<open>load_chapter\<close> prints a diagnostic, returns
  the absent value and raises nothing. The code catches ImportError only: a unit that
  exists and fails to load with another exception, here a SyntaxError in the source of
  chapter 2, makes \<^verbatim>\<open>load_chapter\<close> raise that exception, with nothing printed.
\<close>

theorem load_chapter_fails_to_load_counterexample:
  "load_chapter raising_world GameEngine_init 2
     = ([Import ''chapters.ch2''], Inl (OtherException ''SyntaxError'' ''invalid syntax''))"
  by (simp add: load_chapter_def str_small raising_world_def raising_modules_def)

text \<open>
  C5, amended. For every chapter number whose import raises ImportError (the unit does
  not exist: ModuleNotFoundError, a subclass, included), \<^verbatim>\<open>load_chapter\<close> prints the
  diagnostic, returns the absent value and raises nothing. When the import raises any
  other exception, \<^verbatim>\<open>load_chapter\<close> prints nothing and raises that exception.
\<close>

theorem load_chapter_resolution_failure:
  "(import_module w (''chapters.ch'' @ str n) = Inl e \<and> isinstance_ImportError e \<longrightarrow>
      load_chapter w self n =
        ([Import (''chapters.ch'' @ str n),
          print (''Error loading chapter '' @ str n @ '': '' @ str_exception e)],
         Inr None))
   \<and> (import_module w (''chapters.ch'' @ str n) = Inl e \<and> \<not> isinstance_ImportError e \<longrightarrow>
      load_chapter w self n = ([Import (''chapters.ch'' @ str n)], Inl e))"
  by (simp add: load_chapter_def)

theorem load_chapter_resolution_failure_witness:
  "load_chapter demo_world GameEngine_init 7 =
     ([Import ''chapters.ch7'',
       print (''Error loading chapter 7: No module named '' @ [CHR 0x27] @ ''chapters.ch7'' @ [CHR 0x27])],
      Inr None)
   \<and> load_chapter raising_world GameEngine_init 2
       = ([Import ''chapters.ch2''], Inl (OtherException ''SyntaxError'' ''invalid syntax''))"
  using load_chapter_resolution_failure
          [of demo_world 7 "no_module ''chapters.ch7''" GameEngine_init]
        load_chapter_resolution_failure
          [of raising_world 2 "OtherException ''SyntaxError'' ''invalid syntax''" GameEngine_init]
  by (simp add: str_small demo_world_def demo_modules_def no_module_def
        raising_world_def raising_modules_def)

section \<open>The persistence hooks\<close>

text \<open>
  C7. \<^verbatim>\<open>save_progress\<close> and \<^verbatim>\<open>load_progress\<close> return normally from every engine
  state, leave the engine (\<open>current_chapter\<close>, \<open>max_chapters\<close>, \<open>game_state\<close>) as it was
  and perform no effect.
\<close>

theorem progress_stubs_inert:
  "save_progress self = (self, [], Inr ()) \<and> load_progress self = (self, [], Inr ())"
  by (simp add: save_progress_def load_progress_def)

section \<open>Typewriter output\<close>






section \<open>The shape of a run of run_chapter\<close>

lemma run_chapter_self: "run_chapter w s n = run_chapter w s' n"
  by (simp add: run_chapter_def load_chapter_def)

lemma run_chapter_import_error:
  assumes "import_module w (''chapters.ch'' @ str n) = Inl e" "isinstance_ImportError e"
  shows "run_chapter w s n =
           (loading_banner n @
              [Import (''chapters.ch'' @ str n),
               print (''Error loading chapter '' @ str n @ '': '' @ str_exception e),
               print (''Chapter '' @ str n @ '' could not be loaded. Skipping...'')],
            Inr False)"
  using assms by (simp add: run_chapter_def load_chapter_def)

lemma run_chapter_import_raises:
  assumes "import_module w (''chapters.ch'' @ str n) = Inl e" "\<not> isinstance_ImportError e"
  shows "run_chapter w s n = (loading_banner n @ [Import (''chapters.ch'' @ str n)], Inl e)"
  using assms by (simp add: run_chapter_def load_chapter_def)

lemma run_chapter_imported:
  assumes "import_module w (''chapters.ch'' @ str n) = Inr m"
  shows "(\<exists>a e. run_chapter w s n
                  = (loading_banner n @ [Import (''chapters.ch'' @ str n), Call a], Inl e))
       \<or> (\<exists>a. run_chapter w s n
                  = (loading_banner n @ [Import (''chapters.ch'' @ str n), Call a], Inr True))
       \<or> run_chapter w s n
            = (loading_banner n @
                 [Import (''chapters.ch'' @ str n),
                  print (''No main function found in chapter '' @ str n)],
               Inr False)
       \<or> run_chapter w s n
            = (loading_banner n @
                 [Import (''chapters.ch'' @ str n),
                  print (''Chapter '' @ str n @ '' could not be loaded. Skipping...'')],
               Inr False)"
proof -
  have l: "load_chapter w s n = ([Import (''chapters.ch'' @ str n)], Inr (Some m))"
    using assms by (simp add: load_chapter_def)
  have c: "\<And>a. hasattr m a \<Longrightarrow>
             call_attr m a = ([Call a], Inr ()) \<or> (\<exists>e. call_attr m a = ([Call a], Inl e))"
    by (auto simp: hasattr_def call_attr_def split: callable.splits)
  show ?thesis
  proof (cases "truthy m")
    case False
    with l show ?thesis by (simp add: run_chapter_def)
  next
    case tr: True
    show ?thesis
    proof (cases "hasattr m ''main''")
      case True
      with c [of "''main''"] l tr show ?thesis
        by (auto simp: run_chapter_def)
    next
      case nomain: False
      show ?thesis
      proof (cases "hasattr m (''chapter_'' @ str n)")
        case True
        with c [of "''chapter_'' @ str n"] l tr nomain show ?thesis
          by (auto simp: run_chapter_def)
      next
        case nochapter: False
        show ?thesis
        proof (cases "hasattr m (''ch'' @ str n @ ''_main'')")
          case True
          with c [of "''ch'' @ str n @ ''_main''"] l tr nomain nochapter show ?thesis
            by (auto simp: run_chapter_def)
        next
          case False
          with l tr nomain nochapter show ?thesis
            by (simp add: run_chapter_def)
        qed
      qed
    qed
  qed
qed

lemma dispatch_loading_banner: "filter is_dispatch_event (loading_banner n) = []"
  by (simp add: loading_banner_def print_def)

lemma run_chapter_True_events:
  assumes "snd (run_chapter w s n) = Inr True"
  shows "\<exists>a. filter is_dispatch_event (fst (run_chapter w s n))
               = [Import (''chapters.ch'' @ str n), Call a]"
proof (cases "import_module w (''chapters.ch'' @ str n)")
  case (Inl e)
  then show ?thesis
    using assms run_chapter_import_error [of w n e s] run_chapter_import_raises [of w n e s]
    by (cases "isinstance_ImportError e") simp_all
next
  case (Inr m)
  from run_chapter_imported [OF Inr, of s] assms show ?thesis
    by (auto simp: dispatch_loading_banner)
qed

lemma run_chapter_load_None:
  assumes "snd (load_chapter w s n) = Inr None"
  shows "snd (run_chapter w s n) = Inr False
         \<and> filter is_dispatch_event (fst (run_chapter w s n)) = [Import (''chapters.ch'' @ str n)]"
proof -
  obtain e where "import_module w (''chapters.ch'' @ str n) = Inl e" "isinstance_ImportError e"
    using assms by (auto simp: load_chapter_def Let_def split: sum.splits if_splits)
  then show ?thesis
    by (simp add: run_chapter_import_error dispatch_loading_banner print_def)
qed

section \<open>The prompts\<close>

lemma press_enter_answered:
  "input_raises w place = None \<Longrightarrow>
     press_enter_to_continue w place = (Input pause_prompt # clear_screen w, Inr ())"
  by (simp add: press_enter_to_continue_def py_input_def)

lemma press_enter_raises:
  "input_raises w place = Some e \<Longrightarrow>
     press_enter_to_continue w place = ([Input pause_prompt], Inl e)"
  by (simp add: press_enter_to_continue_def py_input_def)

lemma press_enter_result:
  "snd (press_enter_to_continue w place)
     = (case input_raises w place of None \<Rightarrow> Inr () | Some e \<Rightarrow> Inl e)"
  by (simp add: press_enter_to_continue_def py_input_def split: option.splits)

lemma dispatch_clear_screen: "filter is_dispatch_event (clear_screen w) = []"
  by (simp add: clear_screen_def)

lemma dispatch_welcome: "filter is_dispatch_event welcome_message = []"
  by (simp add: welcome_message_def print_def)

lemma dispatch_press_enter:
  "filter is_dispatch_event (fst (press_enter_to_continue w place)) = [Input pause_prompt]"
  by (simp add: press_enter_to_continue_def py_input_def dispatch_clear_screen
        split: option.splits)

lemma dispatch_completed: "filter is_dispatch_event completed_banner = []"
  by (simp add: completed_banner_def print_def)

lemma dispatch_end_game: "filter is_dispatch_event (fst (end_game w)) = [Input farewell_prompt]"
  by (simp add: end_game_def py_input_def print_def)

lemma end_game_result:
  "snd (end_game w) = (case input_raises w Farewell of None \<Rightarrow> Inr () | Some e \<Rightarrow> Inl e)"
  by (simp add: end_game_def py_input_def)

lemma pause_not_farewell: "pause_prompt \<noteq> farewell_prompt"
  by (simp add: pause_prompt_def farewell_prompt_def)

section \<open>Where the completion banner can occur\<close>

lemma completed_not_rule: "''ADVENTURE COMPLETED!'' \<noteq> replicate 60 c"
proof
  assume "''ADVENTURE COMPLETED!'' = replicate 60 c"
  then have "length ''ADVENTURE COMPLETED!'' = length (replicate 60 c)" by (rule arg_cong)
  then show False by simp
qed

lemmas completed_not_rule' = completed_not_rule completed_not_rule [THEN not_sym]

lemma closing_not_in_run_chapter:
  "print ''ADVENTURE COMPLETED!'' \<notin> set (fst (run_chapter w s n))
   \<and> Input farewell_prompt \<notin> set (fst (run_chapter w s n))"
proof -
  have b: "print ''ADVENTURE COMPLETED!'' \<notin> set (loading_banner n)
           \<and> Input farewell_prompt \<notin> set (loading_banner n)"
    by (simp add: loading_banner_def print_def NL_def completed_not_rule)
  show ?thesis
  proof (cases "import_module w (''chapters.ch'' @ str n)")
    case (Inl e)
    then show ?thesis
      using b run_chapter_import_error [of w n e s] run_chapter_import_raises [of w n e s]
      by (cases "isinstance_ImportError e") (simp_all add: print_def)
  next
    case (Inr m)
    from run_chapter_imported [OF Inr, of s] b show ?thesis
      by (auto simp: print_def)
  qed
qed

lemma closing_not_in_press_enter:
  "print ''ADVENTURE COMPLETED!'' \<notin> set (fst (press_enter_to_continue w place))
   \<and> Input farewell_prompt \<notin> set (fst (press_enter_to_continue w place))"
  using pause_not_farewell
  by (simp add: press_enter_to_continue_def py_input_def clear_screen_def print_def
        split: option.splits)

lemma closing_not_in_loop:
  "print ''ADVENTURE COMPLETED!'' \<notin> set (fst (snd (chapter_loop w cs s)))
   \<and> Input farewell_prompt \<notin> set (fst (snd (chapter_loop w cs s)))"
proof (induction cs arbitrary: s)
  case Nil
  show ?case by simp
next
  case (Cons c cs)
  obtain t r where rc: "run_chapter w s c = (t, r)" by (cases "run_chapter w s c")
  have t: "print ''ADVENTURE COMPLETED!'' \<notin> set t \<and> Input farewell_prompt \<notin> set t"
    using closing_not_in_run_chapter [of w s c] rc by simp
  obtain t3 r3 where pe: "press_enter_to_continue w (ChapterPause c) = (t3, r3)"
    by (cases "press_enter_to_continue w (ChapterPause c)")
  have p: "print ''ADVENTURE COMPLETED!'' \<notin> set t3 \<and> Input farewell_prompt \<notin> set t3"
    using closing_not_in_press_enter [of w "ChapterPause c"] pe by simp
  show ?case
    using rc t pe p Cons.IH [of "s\<lparr>current_chapter := c + 1\<rparr>"]
    by (auto simp: save_progress_def print_def NL_def Let_def case_prod_beta split: sum.splits)
qed

lemma closing_not_in_prelude:
  "count_list (clear_screen w @ welcome_message @ fst (press_enter_to_continue w place))
     (print ''ADVENTURE COMPLETED!'') = 0
   \<and> count_list (clear_screen w @ welcome_message @ fst (press_enter_to_continue w place))
       (Input farewell_prompt) = 0"
  using pause_not_farewell
  by (simp add: clear_screen_def welcome_message_def press_enter_to_continue_def py_input_def
        print_def NL_def completed_not_rule' split: option.splits)

lemma closing_count:
  "count_list (completed_banner @ fst (end_game w)) (print ''ADVENTURE COMPLETED!'') = 1
   \<and> count_list (completed_banner @ fst (end_game w)) (Input farewell_prompt) = 1"
  by (simp add: completed_banner_def end_game_def py_input_def print_def NL_def
        completed_not_rule')

section \<open>The parts of a run of start_game\<close>

lemma start_game_unfold:
  "start_game w s =
     (case snd (press_enter_to_continue w WelcomePause) of
        Inl e \<Rightarrow>
          (s, clear_screen w @ welcome_message @ fst (press_enter_to_continue w WelcomePause),
           Inl e)
      | Inr _ \<Rightarrow>
          (case snd (snd (chapter_loop w [1..max_chapters s] s)) of
             Inl e \<Rightarrow>
               (fst (chapter_loop w [1..max_chapters s] s),
                (clear_screen w @ welcome_message @ fst (press_enter_to_continue w WelcomePause))
                  @ fst (snd (chapter_loop w [1..max_chapters s] s)),
                Inl e)
           | Inr _ \<Rightarrow>
               (fst (chapter_loop w [1..max_chapters s] s),
                (clear_screen w @ welcome_message @ fst (press_enter_to_continue w WelcomePause))
                  @ fst (snd (chapter_loop w [1..max_chapters s] s))
                  @ (completed_banner @ fst (end_game w)),
                snd (end_game w))))"
  by (simp add: start_game_def Let_def case_prod_beta split: sum.splits)

lemma start_game_reaches_end:
  assumes "snd (press_enter_to_continue w WelcomePause) = Inr ()"
    and "snd (snd (chapter_loop w [1..max_chapters s] s)) = Inr ()"
  shows "count_list (fst (snd (start_game w s))) (print ''ADVENTURE COMPLETED!'') = 1
         \<and> count_list (fst (snd (start_game w s))) (Input farewell_prompt) = 1
         \<and> (\<exists>t. fst (snd (start_game w s)) = t @ completed_banner @ fst (end_game w))
         \<and> snd (snd (start_game w s)) = snd (end_game w)"
proof -
  have a: "count_list (fst (snd (chapter_loop w [1..max_chapters s] s)))
             (print ''ADVENTURE COMPLETED!'') = 0
           \<and> count_list (fst (snd (chapter_loop w [1..max_chapters s] s)))
               (Input farewell_prompt) = 0"
    using closing_not_in_loop [of w "[1..max_chapters s]" s] by (simp add: count_list_0_iff)
  show ?thesis
    using assms a closing_not_in_prelude [of w WelcomePause] closing_count [of w]
    by (simp add: start_game_unfold del: append_assoc)
qed

lemma start_game_stops_before_end:
  assumes "snd (press_enter_to_continue w WelcomePause) \<noteq> Inr ()
           \<or> snd (snd (chapter_loop w [1..max_chapters s] s)) \<noteq> Inr ()"
  shows "count_list (fst (snd (start_game w s))) (print ''ADVENTURE COMPLETED!'') = 0
         \<and> count_list (fst (snd (start_game w s))) (Input farewell_prompt) = 0
         \<and> snd (snd (start_game w s)) \<noteq> Inr ()"
proof -
  have a: "count_list (fst (snd (chapter_loop w [1..max_chapters s] s)))
             (print ''ADVENTURE COMPLETED!'') = 0
           \<and> count_list (fst (snd (chapter_loop w [1..max_chapters s] s)))
               (Input farewell_prompt) = 0"
    using closing_not_in_loop [of w "[1..max_chapters s]" s] by (simp add: count_list_0_iff)
  show ?thesis
    using assms a closing_not_in_prelude [of w WelcomePause]
    by (cases "snd (press_enter_to_continue w WelcomePause)";
        cases "snd (snd (chapter_loop w [1..max_chapters s] s))")
       (simp_all add: start_game_unfold del: append_assoc)
qed

lemma start_game_result:
  "snd (snd (start_game w s)) =
     (case snd (press_enter_to_continue w WelcomePause) of
        Inl e \<Rightarrow> Inl e
      | Inr _ \<Rightarrow>
          (case snd (snd (chapter_loop w [1..max_chapters s] s)) of
             Inl e \<Rightarrow> Inl e
           | Inr _ \<Rightarrow> snd (end_game w)))"
  by (simp add: start_game_unfold split: sum.splits)

lemma start_game_state:
  "fst (start_game w s) =
     (case snd (press_enter_to_continue w WelcomePause) of
        Inl e \<Rightarrow> s
      | Inr _ \<Rightarrow> fst (chapter_loop w [1..max_chapters s] s))"
  by (simp add: start_game_unfold split: sum.splits)

lemma dispatch_start_game:
  assumes "input_raises w WelcomePause = None"
    and "chapter_loop w [1..max_chapters s] s = (s1, t1, Inr ())"
  shows "filter is_dispatch_event (fst (snd (start_game w s)))
           = Input pause_prompt # filter is_dispatch_event t1 @ [Input farewell_prompt]"
  using assms
  by (simp add: start_game_unfold press_enter_answered dispatch_clear_screen dispatch_welcome
        dispatch_completed dispatch_end_game)

section \<open>The result and the engine of the loop\<close>

lemma upto_1_5: "[1..5::int] = [1, 2, 3, 4, 5]"
  by (simp add: upto.simps)

lemma int_1_5: "c \<in> {1..5::int} \<Longrightarrow> c = 1 \<or> c = 2 \<or> c = 3 \<or> c = 4 \<or> c = 5"
  by auto

lemma upto_around: "a \<le> k \<Longrightarrow> k \<le> b \<Longrightarrow> [a..b] = [a..k - 1] @ k # [k + 1..b]"
  using upto_split1 [of a k b] upto_rec1 [of k b] by simp

lemma max_chapters_init: "max_chapters GameEngine_init = 5"
  by (simp add: GameEngine_init_def)

lemma loop_result_Cons:
  "snd (snd (chapter_loop w (c # cs) s)) =
     (case snd (run_chapter w s c) of
        Inl e \<Rightarrow> Inl e
      | Inr success \<Rightarrow>
          if \<not> success then Inr ()
          else if c < max_chapters s
            then (case input_raises w (ChapterPause c) of
                    Some e \<Rightarrow> Inl e
                  | None \<Rightarrow> snd (snd (chapter_loop w cs (s\<lparr>current_chapter := c + 1\<rparr>))))
          else snd (snd (chapter_loop w cs (s\<lparr>current_chapter := c + 1\<rparr>))))"
  by (simp add: Let_def save_progress_def press_enter_to_continue_def py_input_def
        case_prod_beta split: sum.splits option.splits)

lemma loop_state_Cons:
  "fst (chapter_loop w (c # cs) s) =
     (case snd (run_chapter w s c) of
        Inl e \<Rightarrow> s
      | Inr success \<Rightarrow>
          if \<not> success then s
          else if c < max_chapters s
            then (case input_raises w (ChapterPause c) of
                    Some e \<Rightarrow> s\<lparr>current_chapter := c + 1\<rparr>
                  | None \<Rightarrow> fst (chapter_loop w cs (s\<lparr>current_chapter := c + 1\<rparr>)))
          else fst (chapter_loop w cs (s\<lparr>current_chapter := c + 1\<rparr>)))"
  by (simp add: Let_def save_progress_def press_enter_to_continue_def py_input_def
        case_prod_beta split: sum.splits option.splits)

lemma loop_all_true:
  "(\<forall>c \<in> set cs. snd (run_chapter w s0 c) = Inr True) \<Longrightarrow>
   (\<forall>c \<in> set cs. c < max_chapters s \<longrightarrow> input_raises w (ChapterPause c) = None) \<Longrightarrow>
     snd (snd (chapter_loop w cs s)) = Inr ()"
proof (induction cs arbitrary: s)
  case Nil
  show ?case by simp
next
  case (Cons c cs)
  have "snd (run_chapter w s c) = Inr True"
    using Cons.prems run_chapter_self [of w s c s0] by simp
  moreover have "snd (snd (chapter_loop w cs (s\<lparr>current_chapter := c + 1\<rparr>))) = Inr ()"
    using Cons.IH [of "s\<lparr>current_chapter := c + 1\<rparr>"] Cons.prems by simp
  ultimately show ?case
    using Cons.prems(2) by (simp add: loop_result_Cons del: chapter_loop.simps(2))
qed

lemma loop_first_false:
  "(\<forall>c \<in> set xs. snd (run_chapter w s0 c) = Inr True) \<Longrightarrow>
   (\<forall>c \<in> set xs. input_raises w (ChapterPause c) = None) \<Longrightarrow>
   snd (run_chapter w s0 k) = Inr False \<Longrightarrow>
     snd (snd (chapter_loop w (xs @ k # ys) s)) = Inr ()"
proof (induction xs arbitrary: s)
  case Nil
  have "snd (run_chapter w s k) = Inr False"
    using Nil.prems run_chapter_self [of w s k s0] by simp
  then show ?case
    by (simp add: loop_result_Cons del: chapter_loop.simps(2))
next
  case (Cons c xs)
  have "snd (run_chapter w s c) = Inr True"
    using Cons.prems run_chapter_self [of w s c s0] by simp
  then show ?case
    using Cons by (simp add: loop_result_Cons del: chapter_loop.simps(2))
qed

lemma start_game_completes:
  assumes "input_raises w WelcomePause = None"
    and "\<forall>c \<in> {1..max_chapters s}. snd (run_chapter w s c) = Inr True"
    and "\<forall>c \<in> {1..<max_chapters s}. input_raises w (ChapterPause c) = None"
  shows "count_list (fst (snd (start_game w s))) (print ''ADVENTURE COMPLETED!'') = 1
         \<and> count_list (fst (snd (start_game w s))) (Input farewell_prompt) = 1
         \<and> snd (snd (start_game w s)) = snd (end_game w)"
proof -
  have "snd (snd (chapter_loop w [1..max_chapters s] s)) = Inr ()"
    using assms(2,3) loop_all_true [of "[1..max_chapters s]" w s s] by simp
  then show ?thesis
    using start_game_reaches_end [of w s] assms(1) by (simp add: press_enter_result)
qed

lemma start_game_breaks:
  assumes "input_raises w WelcomePause = None"
    and "k \<in> {1..max_chapters s}"
    and "\<forall>c \<in> {1..<k}. snd (run_chapter w s c) = Inr True
                           \<and> input_raises w (ChapterPause c) = None"
    and "snd (run_chapter w s k) = Inr False"
  shows "count_list (fst (snd (start_game w s))) (print ''ADVENTURE COMPLETED!'') = 1
         \<and> count_list (fst (snd (start_game w s))) (Input farewell_prompt) = 1
         \<and> snd (snd (start_game w s)) = snd (end_game w)"
proof -
  have "[1..max_chapters s] = [1..k - 1] @ k # [k + 1..max_chapters s]"
    using assms(2) by (simp add: upto_around)
  moreover have "\<forall>c \<in> set [1..k - 1]. snd (run_chapter w s c) = Inr True"
    using assms(3) by simp
  moreover have "\<forall>c \<in> set [1..k - 1]. input_raises w (ChapterPause c) = None"
    using assms(3) by simp
  ultimately have "snd (snd (chapter_loop w [1..max_chapters s] s)) = Inr ()"
    using loop_first_false [of "[1..k - 1]" w s k "[k + 1..max_chapters s]" s] assms(4)
    by simp
  then show ?thesis
    using start_game_reaches_end [of w s] assms(1) by (simp add: press_enter_result)
qed

section \<open>Sample runs\<close>

lemma sample_prompts:
  "input_raises demo_world place = None"
  "input_raises ch3_missing_world place = None"
  "input_raises raising_world place = None"
  "input_raises ch3_broken_world place = None"
  "input_raises eof_world place = Some end_of_input"
  "input_raises ch3_missing_eof_world place = Some end_of_input"
  by (simp_all add: demo_world_def ch3_missing_world_def raising_world_def ch3_broken_world_def
        eof_world_def ch3_missing_eof_world_def)

lemma demo_run_chapter:
  "snd (run_chapter demo_world s 1) = Inr True"
  "snd (run_chapter demo_world s 2) = Inr True"
  "snd (run_chapter demo_world s 3) = Inr True"
  "snd (run_chapter demo_world s 4) = Inr True"
  "snd (run_chapter demo_world s 5) = Inr True"
  by (simp_all add: run_chapter_def load_chapter_def str_small demo_world_def demo_modules_def
        hasattr_def call_attr_def)


lemma ch3_missing_run_chapter:
  "snd (run_chapter ch3_missing_world s 1) = Inr True"
  "snd (run_chapter ch3_missing_world s 2) = Inr True"
  "snd (load_chapter ch3_missing_world s 3) = Inr None"
  by (simp_all add: run_chapter_def load_chapter_def str_small ch3_missing_world_def
        ch3_missing_modules_def demo_modules_def no_module_def hasattr_def call_attr_def)

lemma ch3_missing_run_chapter_3:
  "snd (run_chapter ch3_missing_world s 3) = Inr False"
  using run_chapter_load_None [OF ch3_missing_run_chapter(3)] by simp

lemma ch3_missing_eof_run_chapter:
  "snd (run_chapter ch3_missing_eof_world s 1) = Inr True"
  "snd (run_chapter ch3_missing_eof_world s 2) = Inr True"
  "snd (load_chapter ch3_missing_eof_world s 3) = Inr None"
  by (simp_all add: run_chapter_def load_chapter_def str_small ch3_missing_eof_world_def
        ch3_missing_modules_def demo_modules_def no_module_def hasattr_def call_attr_def)

lemma ch3_broken_run_chapter:
  "snd (run_chapter ch3_broken_world s 1) = Inr True"
  "snd (run_chapter ch3_broken_world s 2) = Inr True"
  "snd (load_chapter ch3_broken_world s 3) = Inl (OtherException ''SyntaxError'' ''invalid syntax'')"
  "snd (run_chapter ch3_broken_world s 3) = Inl (OtherException ''SyntaxError'' ''invalid syntax'')"
  by (simp_all add: run_chapter_def load_chapter_def str_small ch3_broken_world_def
        ch3_broken_modules_def demo_modules_def hasattr_def call_attr_def)

lemma ch3_broken_loop:
  "snd (snd (chapter_loop ch3_broken_world [1..max_chapters GameEngine_init] GameEngine_init))
     = Inl (OtherException ''SyntaxError'' ''invalid syntax'')"
  by (simp add: max_chapters_init upto_1_5 loop_result_Cons ch3_broken_run_chapter sample_prompts
        del: chapter_loop.simps(2))

lemma ch3_broken_start_game:
  "snd (snd (start_game ch3_broken_world GameEngine_init))
     = Inl (OtherException ''SyntaxError'' ''invalid syntax'')"
  by (simp add: start_game_result press_enter_result sample_prompts ch3_broken_loop)

lemma raising_loop:
  "snd (snd (chapter_loop raising_world [1..max_chapters GameEngine_init] GameEngine_init))
     = Inl (OtherException ''RuntimeError'' ''boom'')"
proof -
  have r: "snd (run_chapter raising_world GameEngine_init 1)
             = Inl (OtherException ''RuntimeError'' ''boom'')"
    by (simp add: run_chapter_def load_chapter_def str_small raising_world_def raising_modules_def
          hasattr_def call_attr_def)
  show ?thesis
    using r by (simp add: max_chapters_init upto_1_5 loop_result_Cons del: chapter_loop.simps(2))
qed

lemma raising_start_game:
  "snd (snd (start_game raising_world GameEngine_init))
     = Inl (OtherException ''RuntimeError'' ''boom'')"
  by (simp add: start_game_result press_enter_result sample_prompts raising_loop)

lemma ch3_missing_loop:
  "snd (snd (chapter_loop ch3_missing_world [1..max_chapters GameEngine_init] GameEngine_init))
     = Inr ()"
  by (simp add: max_chapters_init upto_1_5 loop_result_Cons ch3_missing_run_chapter
        ch3_missing_run_chapter_3 sample_prompts del: chapter_loop.simps(2))

lemma ch3_missing_start_game:
  "snd (snd (start_game ch3_missing_world GameEngine_init)) = Inr ()"
  by (simp add: start_game_result press_enter_result end_game_result sample_prompts
        ch3_missing_loop)

lemma demo_loop:
  "snd (snd (chapter_loop demo_world [1..max_chapters GameEngine_init] GameEngine_init)) = Inr ()"
  by (simp add: max_chapters_init upto_1_5 loop_result_Cons demo_run_chapter sample_prompts
        del: chapter_loop.simps(2))

lemma demo_start_game:
  "snd (snd (start_game demo_world GameEngine_init)) = Inr ()"
  by (simp add: start_game_result press_enter_result end_game_result sample_prompts demo_loop)

lemma demo_loop_state:
  "fst (chapter_loop demo_world [1..5] GameEngine_init)
     = GameEngine_init\<lparr>current_chapter := 6\<rparr>"
  by (simp add: upto_1_5 loop_state_Cons demo_run_chapter sample_prompts
        del: chapter_loop.simps(2))

lemma eof_start_game:
  "start_game eof_world s
     = (s, clear_screen eof_world @ welcome_message @ [Input pause_prompt], Inl end_of_input)"
  "start_game ch3_missing_eof_world s
     = (s, clear_screen ch3_missing_eof_world @ welcome_message @ [Input pause_prompt],
        Inl end_of_input)"
  by (simp_all add: start_game_unfold press_enter_raises sample_prompts)

lemma eof_at_farewell_prompts:
  "input_raises eof_at_farewell_world WelcomePause = None"
  "input_raises eof_at_farewell_world (ChapterPause c) = None"
  "input_raises eof_at_farewell_world Farewell = Some end_of_input"
  by (simp_all add: eof_at_farewell_world_def)

lemma eof_at_farewell_run_chapter:
  "snd (run_chapter eof_at_farewell_world s 1) = Inr True"
  "snd (run_chapter eof_at_farewell_world s 2) = Inr True"
  "snd (run_chapter eof_at_farewell_world s 3) = Inr True"
  "snd (run_chapter eof_at_farewell_world s 4) = Inr True"
  "snd (run_chapter eof_at_farewell_world s 5) = Inr True"
  by (simp_all add: run_chapter_def load_chapter_def str_small eof_at_farewell_world_def
        demo_modules_def hasattr_def call_attr_def)

lemma eof_at_farewell_loop:
  "snd (snd (chapter_loop eof_at_farewell_world [1..max_chapters GameEngine_init]
               GameEngine_init)) = Inr ()"
  by (simp add: max_chapters_init upto_1_5 loop_result_Cons eof_at_farewell_run_chapter
        eof_at_farewell_prompts del: chapter_loop.simps(2))

lemma eof_at_farewell_start_game:
  "snd (snd (start_game eof_at_farewell_world GameEngine_init)) = Inl end_of_input"
  by (simp add: start_game_result press_enter_result end_game_result eof_at_farewell_prompts
        eof_at_farewell_loop)

lemma call_names_prelude:
  "call_names (clear_screen w @ welcome_message @ [Input pause_prompt]) = []"
  by (simp add: clear_screen_def welcome_message_def print_def)

section \<open>A run that stops at a chapter\<close>

text \<open>
  C3, as the specification states it: when chapters 1 and 2 succeed and chapter 3 fails
  to load, \<^verbatim>\<open>start_game\<close> calls the entry points of chapters 1 and 2, stops the loop
  at chapter 3 and still prints the completion banner once. That depends on how chapter 3
  fails: when its unit exists and fails to load with an exception that is no ImportError
  (here a SyntaxError in its source), the exception leaves \<^verbatim>\<open>load_chapter\<close>,
  \<^verbatim>\<open>run_chapter\<close> and \<^verbatim>\<open>start_game\<close>, and the banner is never printed. It also
  depends on the prompts: with standard input at its end and the module of chapter 3
  missing, the pause after the welcome banner raises EOFError, which leaves
  \<^verbatim>\<open>start_game\<close> before any entry point is called.
\<close>

theorem chapter3_fails_to_load_counterexample:
  "snd (run_chapter ch3_broken_world GameEngine_init 1) = Inr True
   \<and> snd (run_chapter ch3_broken_world GameEngine_init 2) = Inr True
   \<and> snd (load_chapter ch3_broken_world GameEngine_init 3)
       = Inl (OtherException ''SyntaxError'' ''invalid syntax'')
   \<and> snd (snd (start_game ch3_broken_world GameEngine_init))
       = Inl (OtherException ''SyntaxError'' ''invalid syntax'')
   \<and> count_list (fst (snd (start_game ch3_broken_world GameEngine_init)))
       (print ''ADVENTURE COMPLETED!'') = 0
   \<and> snd (run_chapter ch3_missing_eof_world GameEngine_init 1) = Inr True
   \<and> snd (run_chapter ch3_missing_eof_world GameEngine_init 2) = Inr True
   \<and> snd (load_chapter ch3_missing_eof_world GameEngine_init 3) = Inr None
   \<and> snd (snd (start_game ch3_missing_eof_world GameEngine_init)) = Inl end_of_input
   \<and> call_names (fst (snd (start_game ch3_missing_eof_world GameEngine_init))) = []"
proof -
  have "snd (snd (chapter_loop ch3_broken_world [1..max_chapters GameEngine_init] GameEngine_init))
          \<noteq> Inr ()"
    by (simp add: ch3_broken_loop)
  then have "count_list (fst (snd (start_game ch3_broken_world GameEngine_init)))
               (print ''ADVENTURE COMPLETED!'') = 0"
    using start_game_stops_before_end [of ch3_broken_world GameEngine_init] by simp
  then show ?thesis
    by (simp add: ch3_broken_run_chapter ch3_broken_start_game ch3_missing_eof_run_chapter
          eof_start_game call_names_prelude)
qed

text \<open>
  C3, amended. When \<^verbatim>\<open>start_game\<close> runs over 5 chapters, \<^verbatim>\<open>run_chapter\<close> returns
  True for chapters 1 and 2, chapter 3 fails to load with an ImportError (so that
  \<^verbatim>\<open>load_chapter(3)\<close> returns the absent value), and the three pauses before chapter
  3 are answered (the one after the welcome banner and the ones after chapters 1 and 2):
  the entry points of chapters 1 and 2 are each called once, in this order, chapter 3 is
  imported and nothing of it is called, chapters 4 and 5 are neither imported nor called,
  and the completion banner is printed exactly once, whether the farewell prompt that
  follows it is answered or not. The imports, calls and prompts of the run are listed in
  full.
\<close>

theorem start_game_stops_at_failed_chapter:
  assumes "snd (run_chapter w self 1) = Inr True"
    and "snd (run_chapter w self 2) = Inr True"
    and "snd (load_chapter w self 3) = Inr None"
    and "max_chapters self = 5"
    and "input_raises w WelcomePause = None"
    and "input_raises w (ChapterPause 1) = None"
    and "input_raises w (ChapterPause 2) = None"
  shows "(\<exists>a1 a2. filter is_dispatch_event (fst (snd (start_game w self)))
            = [Input pause_prompt,
               Import ''chapters.ch1'', Call a1, Input pause_prompt,
               Import ''chapters.ch2'', Call a2, Input pause_prompt,
               Import ''chapters.ch3'',
               Input farewell_prompt])
         \<and> count_list (fst (snd (start_game w self))) (print ''ADVENTURE COMPLETED!'') = 1"
proof -
  obtain t1 where r1: "\<And>s. run_chapter w s 1 = (t1, Inr True)"
    using assms(1) run_chapter_self [of w _ 1 self] by (cases "run_chapter w self 1") simp
  obtain t2 where r2: "\<And>s. run_chapter w s 2 = (t2, Inr True)"
    using assms(2) run_chapter_self [of w _ 2 self] by (cases "run_chapter w self 2") simp
  have "snd (run_chapter w self 3) = Inr False"
    using run_chapter_load_None [OF assms(3)] by simp
  then obtain t3 where r3: "\<And>s. run_chapter w s 3 = (t3, Inr False)"
    using run_chapter_self [of w _ 3 self] by (cases "run_chapter w self 3") simp
  obtain a1 where e1: "filter is_dispatch_event t1 = [Import ''chapters.ch1'', Call a1]"
    using run_chapter_True_events [of w self 1] r1 [of self] by (auto simp: str_small)
  obtain a2 where e2: "filter is_dispatch_event t2 = [Import ''chapters.ch2'', Call a2]"
    using run_chapter_True_events [of w self 2] r2 [of self] by (auto simp: str_small)
  have e3: "filter is_dispatch_event t3 = [Import ''chapters.ch3'']"
    using run_chapter_load_None [OF assms(3)] r3 [of self] by (simp add: str_small)
  have loop: "chapter_loop w [1..max_chapters self] self
                = (self\<lparr>current_chapter := 3\<rparr>,
                   [print (NL # ''--- Beginning Chapter '' @ str 1 @ '' ---'')] @ t1
                     @ (Input pause_prompt # clear_screen w)
                     @ [print (NL # ''--- Beginning Chapter '' @ str 2 @ '' ---'')] @ t2
                     @ (Input pause_prompt # clear_screen w)
                     @ [print (NL # ''--- Beginning Chapter '' @ str 3 @ '' ---'')] @ t3
                     @ [print ''Game encountered an error. Ending...''],
                   Inr ())"
    using assms(4,6,7)
    by (simp add: upto.simps r1 r2 r3 save_progress_def press_enter_answered)
  have "filter is_dispatch_event (fst (snd (start_game w self)))
          = [Input pause_prompt,
             Import ''chapters.ch1'', Call a1, Input pause_prompt,
             Import ''chapters.ch2'', Call a2, Input pause_prompt,
             Import ''chapters.ch3'',
             Input farewell_prompt]"
    unfolding dispatch_start_game [OF assms(5) loop]
    by (simp add: e1 e2 e3 dispatch_clear_screen print_def)
  moreover have "count_list (fst (snd (start_game w self))) (print ''ADVENTURE COMPLETED!'') = 1"
    using start_game_reaches_end [of w self] loop assms(5) by (simp add: press_enter_result)
  ultimately show ?thesis by blast
qed

theorem start_game_stops_at_failed_chapter_witness:
  "snd (run_chapter ch3_missing_world GameEngine_init 1) = Inr True
   \<and> snd (run_chapter ch3_missing_world GameEngine_init 2) = Inr True
   \<and> snd (load_chapter ch3_missing_world GameEngine_init 3) = Inr None
   \<and> max_chapters GameEngine_init = 5
   \<and> input_raises ch3_missing_world WelcomePause = None
   \<and> input_raises ch3_missing_world (ChapterPause 1) = None
   \<and> input_raises ch3_missing_world (ChapterPause 2) = None
   \<and> (\<exists>a1 a2. filter is_dispatch_event (fst (snd (start_game ch3_missing_world GameEngine_init)))
            = [Input pause_prompt,
               Import ''chapters.ch1'', Call a1, Input pause_prompt,
               Import ''chapters.ch2'', Call a2, Input pause_prompt,
               Import ''chapters.ch3'',
               Input farewell_prompt])
   \<and> count_list (fst (snd (start_game ch3_missing_world GameEngine_init)))
       (print ''ADVENTURE COMPLETED!'') = 1"
proof -
  from start_game_stops_at_failed_chapter
         [OF ch3_missing_run_chapter(1) ch3_missing_run_chapter(2) ch3_missing_run_chapter(3)
             max_chapters_init sample_prompts(2) sample_prompts(2) sample_prompts(2)]
  show ?thesis
    by (simp add: ch3_missing_run_chapter max_chapters_init sample_prompts)
qed

section \<open>A run through all chapters\<close>




section \<open>The closing banner\<close>

text \<open>
  C6, as the specification states it: in every run of \<^verbatim>\<open>start_game\<close> the completion
  banner is printed exactly once and \<^verbatim>\<open>end_game\<close> is called exactly once. A run need
  not reach the end of the loop: when the entry point of chapter 1 raises, the exception
  leaves \<^verbatim>\<open>start_game\<close>, and neither the banner nor the farewell is printed. The same
  happens when the pause after the welcome banner meets the end of standard input.
\<close>

theorem banner_not_printed_counterexample:
  "snd (snd (start_game raising_world GameEngine_init))
     = Inl (OtherException ''RuntimeError'' ''boom'')
   \<and> count_list (fst (snd (start_game raising_world GameEngine_init)))
       (print ''ADVENTURE COMPLETED!'') = 0
   \<and> count_list (fst (snd (start_game raising_world GameEngine_init)))
       (Input farewell_prompt) = 0
   \<and> snd (snd (start_game eof_world GameEngine_init)) = Inl end_of_input
   \<and> count_list (fst (snd (start_game eof_world GameEngine_init)))
       (print ''ADVENTURE COMPLETED!'') = 0
   \<and> count_list (fst (snd (start_game eof_world GameEngine_init)))
       (Input farewell_prompt) = 0"
proof -
  have "snd (snd (chapter_loop raising_world [1..max_chapters GameEngine_init] GameEngine_init))
          \<noteq> Inr ()"
    by (simp add: raising_loop)
  moreover have "snd (press_enter_to_continue eof_world WelcomePause) \<noteq> Inr ()"
    by (simp add: press_enter_result sample_prompts)
  ultimately show ?thesis
    using start_game_stops_before_end [of raising_world GameEngine_init]
          start_game_stops_before_end [of eof_world GameEngine_init]
    by (simp add: raising_start_game eof_start_game)
qed

text \<open>
  C6, amended. In every run of \<^verbatim>\<open>start_game\<close> in which the pause after the welcome
  banner is answered and the loop ends without an exception, the line
  ADVENTURE COMPLETED! is printed exactly once and the farewell prompt of
  \<^verbatim>\<open>end_game\<close> is shown exactly once, the banner and the effects of \<^verbatim>\<open>end_game\<close>
  being the last of the run, and \<^verbatim>\<open>start_game\<close> ends as \<^verbatim>\<open>end_game\<close> does. In
  every other run (an exception raised by the first pause, by a chapter or by a pause
  between two chapters) the banner and the farewell do not occur at all, and the
  exception leaves \<^verbatim>\<open>start_game\<close>. The first case is that of a loop that completes
  all chapters and that of a loop broken early by a \<^verbatim>\<open>run_chapter\<close> that returned
  False, whenever the pauses before the chapters that are run are answered.
\<close>

theorem start_game_closing_banner:
  "(snd (press_enter_to_continue w WelcomePause) = Inr ()
      \<and> snd (snd (chapter_loop w [1..max_chapters self] self)) = Inr () \<longrightarrow>
      count_list (fst (snd (start_game w self))) (print ''ADVENTURE COMPLETED!'') = 1
      \<and> count_list (fst (snd (start_game w self))) (Input farewell_prompt) = 1
      \<and> (\<exists>t. fst (snd (start_game w self)) = t @ completed_banner @ fst (end_game w))
      \<and> snd (snd (start_game w self)) = snd (end_game w))
   \<and> (snd (press_enter_to_continue w WelcomePause) \<noteq> Inr ()
      \<or> snd (snd (chapter_loop w [1..max_chapters self] self)) \<noteq> Inr () \<longrightarrow>
      count_list (fst (snd (start_game w self))) (print ''ADVENTURE COMPLETED!'') = 0
      \<and> count_list (fst (snd (start_game w self))) (Input farewell_prompt) = 0
      \<and> snd (snd (start_game w self)) \<noteq> Inr ())
   \<and> (input_raises w WelcomePause = None
      \<and> (\<forall>c \<in> {1..max_chapters self}. snd (run_chapter w self c) = Inr True)
      \<and> (\<forall>c \<in> {1..<max_chapters self}. input_raises w (ChapterPause c) = None) \<longrightarrow>
      count_list (fst (snd (start_game w self))) (print ''ADVENTURE COMPLETED!'') = 1
      \<and> count_list (fst (snd (start_game w self))) (Input farewell_prompt) = 1
      \<and> snd (snd (start_game w self)) = snd (end_game w))
   \<and> (\<forall>k \<in> {1..max_chapters self}.
        input_raises w WelcomePause = None
        \<and> (\<forall>c \<in> {1..<k}. snd (run_chapter w self c) = Inr True
                             \<and> input_raises w (ChapterPause c) = None)
        \<and> snd (run_chapter w self k) = Inr False \<longrightarrow>
        count_list (fst (snd (start_game w self))) (print ''ADVENTURE COMPLETED!'') = 1
        \<and> count_list (fst (snd (start_game w self))) (Input farewell_prompt) = 1
        \<and> snd (snd (start_game w self)) = snd (end_game w))"
proof -
  have a: "count_list (fst (snd (start_game w self))) (print ''ADVENTURE COMPLETED!'') = 1
           \<and> count_list (fst (snd (start_game w self))) (Input farewell_prompt) = 1
           \<and> (\<exists>t. fst (snd (start_game w self)) = t @ completed_banner @ fst (end_game w))
           \<and> snd (snd (start_game w self)) = snd (end_game w)"
    if "snd (press_enter_to_continue w WelcomePause) = Inr ()"
       "snd (snd (chapter_loop w [1..max_chapters self] self)) = Inr ()"
    using start_game_reaches_end [OF that] .
  have b: "count_list (fst (snd (start_game w self))) (print ''ADVENTURE COMPLETED!'') = 0
           \<and> count_list (fst (snd (start_game w self))) (Input farewell_prompt) = 0
           \<and> snd (snd (start_game w self)) \<noteq> Inr ()"
    if "snd (press_enter_to_continue w WelcomePause) \<noteq> Inr ()
        \<or> snd (snd (chapter_loop w [1..max_chapters self] self)) \<noteq> Inr ()"
    using start_game_stops_before_end [OF that] .
  have c: "count_list (fst (snd (start_game w self))) (print ''ADVENTURE COMPLETED!'') = 1
           \<and> count_list (fst (snd (start_game w self))) (Input farewell_prompt) = 1
           \<and> snd (snd (start_game w self)) = snd (end_game w)"
    if "input_raises w WelcomePause = None"
       "\<forall>c \<in> {1..max_chapters self}. snd (run_chapter w self c) = Inr True"
       "\<forall>c \<in> {1..<max_chapters self}. input_raises w (ChapterPause c) = None"
    using start_game_completes [OF that] .
  have d: "count_list (fst (snd (start_game w self))) (print ''ADVENTURE COMPLETED!'') = 1
           \<and> count_list (fst (snd (start_game w self))) (Input farewell_prompt) = 1
           \<and> snd (snd (start_game w self)) = snd (end_game w)"
    if "k \<in> {1..max_chapters self}" "input_raises w WelcomePause = None"
       "\<forall>c \<in> {1..<k}. snd (run_chapter w self c) = Inr True
                         \<and> input_raises w (ChapterPause c) = None"
       "snd (run_chapter w self k) = Inr False" for k
    using start_game_breaks [OF that(2) that(1) that(3) that(4)] .
  show ?thesis
    using a b c d by blast
qed

theorem start_game_closing_banner_witness:
  "snd (run_chapter ch3_missing_world GameEngine_init 3) = Inr False
   \<and> snd (snd (start_game ch3_missing_world GameEngine_init)) = Inr ()
   \<and> count_list (fst (snd (start_game ch3_missing_world GameEngine_init)))
       (print ''ADVENTURE COMPLETED!'') = 1
   \<and> count_list (fst (snd (start_game ch3_missing_world GameEngine_init)))
       (Input farewell_prompt) = 1
   \<and> snd (run_chapter demo_world GameEngine_init 5) = Inr True
   \<and> snd (snd (start_game demo_world GameEngine_init)) = Inr ()
   \<and> count_list (fst (snd (start_game demo_world GameEngine_init)))
       (print ''ADVENTURE COMPLETED!'') = 1
   \<and> count_list (fst (snd (start_game demo_world GameEngine_init)))
       (Input farewell_prompt) = 1
   \<and> snd (snd (start_game eof_at_farewell_world GameEngine_init)) = Inl end_of_input
   \<and> count_list (fst (snd (start_game eof_at_farewell_world GameEngine_init)))
       (print ''ADVENTURE COMPLETED!'') = 1
   \<and> count_list (fst (snd (start_game eof_at_farewell_world GameEngine_init)))
       (Input farewell_prompt) = 1
   \<and> snd (snd (start_game raising_world GameEngine_init))
       = Inl (OtherException ''RuntimeError'' ''boom'')
   \<and> count_list (fst (snd (start_game raising_world GameEngine_init)))
       (print ''ADVENTURE COMPLETED!'') = 0"
proof -
  have three: "(3::int) \<in> {1..max_chapters GameEngine_init}"
    by (simp add: max_chapters_init)
  have before: "\<forall>c \<in> {1..<3}. snd (run_chapter ch3_missing_world GameEngine_init c) = Inr True
                                 \<and> input_raises ch3_missing_world (ChapterPause c) = None"
  proof
    fix c :: int
    assume "c \<in> {1..<3}"
    then have "c = 1 \<or> c = 2" by auto
    then show "snd (run_chapter ch3_missing_world GameEngine_init c) = Inr True
               \<and> input_raises ch3_missing_world (ChapterPause c) = None"
      using ch3_missing_run_chapter(1,2) [of GameEngine_init] sample_prompts(2) by auto
  qed
  from start_game_closing_banner [of ch3_missing_world GameEngine_init] three before
       ch3_missing_run_chapter_3 [of GameEngine_init] sample_prompts(2) [of WelcomePause]
  have a: "count_list (fst (snd (start_game ch3_missing_world GameEngine_init)))
             (print ''ADVENTURE COMPLETED!'') = 1
           \<and> count_list (fst (snd (start_game ch3_missing_world GameEngine_init)))
               (Input farewell_prompt) = 1"
    by blast
  have all: "\<forall>c \<in> {1..max_chapters GameEngine_init}.
               snd (run_chapter demo_world GameEngine_init c) = Inr True"
    unfolding max_chapters_init using demo_run_chapter [of GameEngine_init] int_1_5 by blast
  have pauses: "\<forall>c \<in> {1..<max_chapters GameEngine_init}.
                  input_raises demo_world (ChapterPause c) = None"
    by (simp add: sample_prompts)
  from start_game_closing_banner [of demo_world GameEngine_init] all pauses
       sample_prompts(1) [of WelcomePause]
  have b: "count_list (fst (snd (start_game demo_world GameEngine_init)))
             (print ''ADVENTURE COMPLETED!'') = 1
           \<and> count_list (fst (snd (start_game demo_world GameEngine_init)))
               (Input farewell_prompt) = 1"
    by blast
  have "snd (press_enter_to_continue eof_at_farewell_world WelcomePause) = Inr ()"
    by (simp add: press_enter_result eof_at_farewell_prompts)
  with start_game_closing_banner [of eof_at_farewell_world GameEngine_init] eof_at_farewell_loop
  have c: "count_list (fst (snd (start_game eof_at_farewell_world GameEngine_init)))
             (print ''ADVENTURE COMPLETED!'') = 1
           \<and> count_list (fst (snd (start_game eof_at_farewell_world GameEngine_init)))
               (Input farewell_prompt) = 1"
    by blast
  have "snd (snd (chapter_loop raising_world [1..max_chapters GameEngine_init] GameEngine_init))
          \<noteq> Inr ()"
    by (simp add: raising_loop)
  with start_game_closing_banner [of raising_world GameEngine_init]
  have d: "count_list (fst (snd (start_game raising_world GameEngine_init)))
             (print ''ADVENTURE COMPLETED!'') = 0"
    by blast
  show ?thesis
    using a b c d
    by (simp add: ch3_missing_start_game demo_start_game eof_at_farewell_start_game
          raising_start_game ch3_missing_run_chapter_3 demo_run_chapter)
qed

section \<open>The frame of the engine\<close>

lemma chapter_loop_frame:
  "game_state (fst (chapter_loop w cs s)) = game_state s
   \<and> max_chapters (fst (chapter_loop w cs s)) = max_chapters s"
proof (induction cs arbitrary: s)
  case Nil
  show ?case by simp
next
  case (Cons c cs)
  show ?case
    using Cons.IH [of "s\<lparr>current_chapter := c + 1\<rparr>"]
    by (simp add: loop_state_Cons del: chapter_loop.simps(2) split: sum.splits option.splits)
qed

lemma perform_frame:
  "game_state (perform w operation s) = game_state s
   \<and> max_chapters (perform w operation s) = max_chapters s"
  by (cases operation)
     (simp_all add: save_progress_def load_progress_def start_game_state chapter_loop_frame
        split: sum.splits)

lemma lifetime_frame:
  "game_state (lifetime ops s) = game_state s \<and> max_chapters (lifetime ops s) = max_chapters s"
proof (induction ops arbitrary: s)
  case Nil
  show ?case by simp
next
  case (Cons a ops)
  obtain w operation where a: "a = (w, operation)" by (cases a)
  show ?case
    using Cons.IH [of "perform w operation s"] perform_frame [of w operation s]
    by (simp add: a)
qed

text \<open>
  C9. Whatever methods are called on an engine after its construction, and in whatever
  surroundings, \<open>game_state\<close> stays as \<^verbatim>\<open>__init__\<close> made it: the empty player name, the
  empty inventory and the empty progress mapping. No method changes \<open>game_state\<close> or
  \<open>max_chapters\<close>: \<open>current_chapter\<close> is the only field that any of them assigns.
\<close>

theorem game_state_never_mutated:
  "game_state (lifetime ops GameEngine_init)
     = \<lparr>player_name = '''', inventory = [], progress = Map.empty\<rparr>
   \<and> max_chapters (lifetime ops GameEngine_init) = 5
   \<and> game_state (perform w operation self) = game_state self
   \<and> max_chapters (perform w operation self) = max_chapters self"
  using lifetime_frame [of ops GameEngine_init] perform_frame [of w operation self]
  by (simp add: GameEngine_init_def)

theorem game_state_never_mutated_witness:
  "game_state (lifetime [(demo_world, StartGame), (demo_world, SaveProgress)] GameEngine_init)
     = \<lparr>player_name = '''', inventory = [], progress = Map.empty\<rparr>
   \<and> max_chapters (lifetime [(demo_world, StartGame), (demo_world, SaveProgress)] GameEngine_init) = 5
   \<and> current_chapter (lifetime [(demo_world, StartGame), (demo_world, SaveProgress)] GameEngine_init) = 6"
  using game_state_never_mutated
          [of "[(demo_world, StartGame), (demo_world, SaveProgress)]" demo_world StartGame
              GameEngine_init]
  by (simp add: start_game_state press_enter_result sample_prompts max_chapters_init
        demo_loop_state save_progress_def)

section \<open>The invariant of the chapter loop\<close>

lemma loop_points_invariant:
  "(p, e, n) \<in> set (loop_points w [a..b] s k) \<Longrightarrow>
   current_chapter s = a \<Longrightarrow> a = 1 + int k \<Longrightarrow> a \<le> max_chapters s + 1 \<Longrightarrow>
   b \<le> max_chapters s \<Longrightarrow>
     max_chapters e = max_chapters s
     \<and> (p = AfterRunChapter True \<longrightarrow> current_chapter e = int n)
     \<and> (p \<noteq> AfterRunChapter True \<longrightarrow> current_chapter e = 1 + int n)
     \<and> 1 \<le> current_chapter e \<and> current_chapter e \<le> max_chapters e + 1"
proof (induction a b arbitrary: s k rule: upto.induct)
  case (1 i j)
  show ?case
  proof (cases "i \<le> j")
    case False
    then have "[i..j] = []" by simp
    with "1.prems" show ?thesis by simp
  next
    case True
    then have u: "[i..j] = i # [i + 1..j]" by (rule upto_rec1)
    let ?s' = "s\<lparr>current_chapter := i + 1\<rparr>"
    have ih: "(p, e, n) \<in> set (loop_points w [i + 1..j] ?s' (Suc k)) \<Longrightarrow>
                max_chapters e = max_chapters s
                \<and> (p = AfterRunChapter True \<longrightarrow> current_chapter e = int n)
                \<and> (p \<noteq> AfterRunChapter True \<longrightarrow> current_chapter e = 1 + int n)
                \<and> 1 \<le> current_chapter e \<and> current_chapter e \<le> max_chapters e + 1"
      using "1.IH" [OF True, of ?s' "Suc k"] "1.prems"(2,3,5) True by simp
    show ?thesis
    proof (cases "snd (run_chapter w s i)")
      case (Inl x)
      with "1.prems" u show ?thesis by simp
    next
      case (Inr success)
      show ?thesis
      proof (cases success)
        case False
        with Inr "1.prems" u show ?thesis by auto
      next
        case True
        with Inr "1.prems"(1) u
        have "(p, e, n) = (LoopHead, s, k) \<or> (p, e, n) = (AfterRunChapter True, s, Suc k)
              \<or> (p, e, n) = (AfterAdvance, ?s', Suc k)
              \<or> (p, e, n) \<in> set (loop_points w [i + 1..j] ?s' (Suc k))"
          by (auto simp add: save_progress_def Let_def split: if_splits)
        then show ?thesis
          using ih "1.prems"(2,3,4,5) \<open>i \<le> j\<close> by auto
      qed
    qed
  qed
qed

lemma loop_points_nonempty: "loop_points w cs s k \<noteq> []"
  by (cases cs) simp_all

lemma loop_points_last:
  "fst (snd (last (loop_points w cs s k))) = fst (chapter_loop w cs s)"
proof (induction cs arbitrary: s k)
  case Nil
  show ?case by simp
next
  case (Cons c cs)
  show ?case
    using Cons.IH [of "s\<lparr>current_chapter := c + 1\<rparr>" "Suc k"]
          loop_points_nonempty [of w cs "s\<lparr>current_chapter := c + 1\<rparr>" "Suc k"]
    by (simp add: loop_state_Cons save_progress_def press_enter_result
          del: chapter_loop.simps(2) split: sum.splits option.splits)
qed

lemma loop_left_at_failed:
  "a \<le> k \<Longrightarrow> k \<le> b \<Longrightarrow> current_chapter s = a \<Longrightarrow>
   (\<forall>c \<in> {a..<k}. snd (run_chapter w s0 c) = Inr True) \<Longrightarrow>
   (\<forall>c \<in> {a..<k}. input_raises w (ChapterPause c) = None) \<Longrightarrow>
   snd (run_chapter w s0 k) \<noteq> Inr True \<Longrightarrow>
     current_chapter (fst (chapter_loop w [a..b] s)) = k"
proof (induction a b arbitrary: s rule: upto.induct)
  case (1 i j)
  have ij: "i \<le> j" using "1.prems" by simp
  then have u: "[i..j] = i # [i + 1..j]" by (rule upto_rec1)
  show ?case
  proof (cases "k = i")
    case True
    have "snd (run_chapter w s i) \<noteq> Inr True"
      using "1.prems"(6) True run_chapter_self [of w s i s0] by simp
    then show ?thesis
      using "1.prems"(3) True u
      by (cases "snd (run_chapter w s i)")
         (simp_all add: loop_state_Cons del: chapter_loop.simps(2))
  next
    case False
    then have lt: "i + 1 \<le> k" using "1.prems"(1) by simp
    have "snd (run_chapter w s i) = Inr True"
      using "1.prems"(1,4) False run_chapter_self [of w s i s0] by simp
    moreover have "input_raises w (ChapterPause i) = None"
      using "1.prems"(1,5) False by simp
    moreover have "current_chapter (fst (chapter_loop w [i + 1..j] (s\<lparr>current_chapter := i + 1\<rparr>))) = k"
      using "1.IH" [OF ij lt "1.prems"(2), of "s\<lparr>current_chapter := i + 1\<rparr>"] "1.prems"(4,5,6)
      by simp
    ultimately show ?thesis
      using u by (simp add: loop_state_Cons del: chapter_loop.simps(2))
  qed
qed

lemma demo_points_member:
  "(AfterRunChapter True, GameEngine_init, Suc 0)
     \<in> set (loop_points demo_world [1..max_chapters GameEngine_init] GameEngine_init 0)"
  by (simp add: GameEngine_init_def upto_1_5 demo_run_chapter)

lemma demo_points_exit:
  "(AfterLoop, GameEngine_init\<lparr>current_chapter := 6\<rparr>, 5)
     \<in> set (loop_points demo_world [1..max_chapters GameEngine_init] GameEngine_init 0)"
  by (simp add: max_chapters_init upto_1_5 demo_run_chapter save_progress_def eval_nat_numeral
        press_enter_result sample_prompts Let_def)

text \<open>
  C10, as stated: at every point during and after the loop, \<open>current_chapter\<close> is 1 plus
  the number of chapters for which \<^verbatim>\<open>run_chapter\<close> has returned True. Right after
  \<^verbatim>\<open>run_chapter(1)\<close> has returned True and before \<^verbatim>\<open>current_chapter\<close> is assigned, that
  number is 1 and \<open>current_chapter\<close> is still 1.
\<close>

theorem invariant_between_return_and_advance_counterexample:
  "(AfterRunChapter True, GameEngine_init, Suc 0)
     \<in> set (loop_points demo_world [1..max_chapters GameEngine_init] GameEngine_init 0)
   \<and> current_chapter GameEngine_init \<noteq> 1 + int (Suc 0)"
  using demo_points_member by (simp add: GameEngine_init_def)

text \<open>
  C10, amended. For an engine as \<^verbatim>\<open>__init__\<close> leaves it (\<open>current_chapter\<close> 1, a
  \<open>max_chapters\<close> that is not negative), at every point of the loop of
  \<^verbatim>\<open>start_game\<close> and after it, \<open>current_chapter\<close> is 1 plus the number of chapters for
  which \<^verbatim>\<open>run_chapter\<close> has returned True; the one exception is the stretch between a
  return of True and the assignment that follows it, where \<open>current_chapter\<close> is that
  number itself. At every point \<open>current_chapter\<close> lies between 1 and
  \<open>max_chapters + 1\<close>. When the loop reaches chapter \<open>k\<close> (the chapters before it
  return True and the pauses after them are answered) and chapter \<open>k\<close> fails
  (\<^verbatim>\<open>run_chapter(k)\<close> returns False or raises), the loop leaves \<open>current_chapter\<close> at
  \<open>k\<close>. The engine at the last point is the engine the loop leaves behind.
\<close>

theorem chapter_loop_invariant:
  assumes "current_chapter self = 1" and "0 \<le> max_chapters self"
  shows "(\<forall>(p, e, n) \<in> set (loop_points w [1..max_chapters self] self 0).
            (p = AfterRunChapter True \<longrightarrow> current_chapter e = int n)
            \<and> (p \<noteq> AfterRunChapter True \<longrightarrow> current_chapter e = 1 + int n)
            \<and> 1 \<le> current_chapter e \<and> current_chapter e \<le> max_chapters e + 1)
         \<and> (\<forall>k \<in> {1..max_chapters self}.
              (\<forall>c \<in> {1..<k}. snd (run_chapter w self c) = Inr True
                               \<and> input_raises w (ChapterPause c) = None)
              \<and> snd (run_chapter w self k) \<noteq> Inr True \<longrightarrow>
              current_chapter (fst (chapter_loop w [1..max_chapters self] self)) = k)
         \<and> fst (snd (last (loop_points w [1..max_chapters self] self 0)))
             = fst (chapter_loop w [1..max_chapters self] self)"
proof -
  have a: "(p = AfterRunChapter True \<longrightarrow> current_chapter e = int n)
            \<and> (p \<noteq> AfterRunChapter True \<longrightarrow> current_chapter e = 1 + int n)
            \<and> 1 \<le> current_chapter e \<and> current_chapter e \<le> max_chapters e + 1"
    if "(p, e, n) \<in> set (loop_points w [1..max_chapters self] self 0)" for p e n
    using loop_points_invariant [OF that] assms by simp
  have b: "current_chapter (fst (chapter_loop w [1..max_chapters self] self)) = k"
    if "k \<in> {1..max_chapters self}"
       "\<forall>c \<in> {1..<k}. snd (run_chapter w self c) = Inr True
                        \<and> input_raises w (ChapterPause c) = None"
       "snd (run_chapter w self k) \<noteq> Inr True" for k
    using loop_left_at_failed [of 1 k "max_chapters self" self w self] that assms(1) by simp
  show ?thesis
    using a b loop_points_last [of w "[1..max_chapters self]" self 0] by blast
qed

theorem chapter_loop_invariant_witness:
  "current_chapter GameEngine_init = 1 \<and> 0 \<le> max_chapters GameEngine_init
   \<and> (AfterLoop, GameEngine_init\<lparr>current_chapter := 6\<rparr>, 5)
        \<in> set (loop_points demo_world [1..max_chapters GameEngine_init] GameEngine_init 0)
   \<and> current_chapter (GameEngine_init\<lparr>current_chapter := 6\<rparr>) = 1 + int 5
   \<and> current_chapter (GameEngine_init\<lparr>current_chapter := 6\<rparr>)
        \<le> max_chapters (GameEngine_init\<lparr>current_chapter := 6\<rparr>) + 1
   \<and> snd (run_chapter ch3_missing_world GameEngine_init 3) \<noteq> Inr True
   \<and> current_chapter
        (fst (chapter_loop ch3_missing_world [1..max_chapters GameEngine_init] GameEngine_init)) = 3"
proof -
  have c: "current_chapter GameEngine_init = 1" and m: "0 \<le> max_chapters GameEngine_init"
    by (simp_all add: GameEngine_init_def)
  have three: "(3::int) \<in> {1..max_chapters GameEngine_init}"
    by (simp add: max_chapters_init)
  have before: "\<forall>c \<in> {1..<3}. snd (run_chapter ch3_missing_world GameEngine_init c) = Inr True
                                 \<and> input_raises ch3_missing_world (ChapterPause c) = None"
  proof
    fix c :: int
    assume "c \<in> {1..<3}"
    then have "c = 1 \<or> c = 2" by auto
    then show "snd (run_chapter ch3_missing_world GameEngine_init c) = Inr True
               \<and> input_raises ch3_missing_world (ChapterPause c) = None"
      using ch3_missing_run_chapter(1,2) [of GameEngine_init] sample_prompts(2) by auto
  qed
  have fails: "snd (run_chapter ch3_missing_world GameEngine_init 3) \<noteq> Inr True"
    by (simp add: ch3_missing_run_chapter_3)
  from chapter_loop_invariant [OF c m, of demo_world] demo_points_exit
  have "current_chapter (GameEngine_init\<lparr>current_chapter := 6\<rparr>) = 1 + int 5
        \<and> current_chapter (GameEngine_init\<lparr>current_chapter := 6\<rparr>)
             \<le> max_chapters (GameEngine_init\<lparr>current_chapter := 6\<rparr>) + 1"
    by fastforce
  moreover from chapter_loop_invariant [OF c m, of ch3_missing_world] three before fails
  have "current_chapter
          (fst (chapter_loop ch3_missing_world [1..max_chapters GameEngine_init] GameEngine_init)) = 3"
    by blast
  ultimately show ?thesis
    using c m demo_points_exit fails by blast
qed

end
